theory Spec2Isabelle
  imports Complex_Main
begin

section \<open>Values exchanged with the caller\<close>

text \<open>
  JSON values, as \<^verbatim>\<open>request.json()\<close> yields them and as the handlers send them. A number is
  given by its value. Objects are association lists, so that the field names of a response can
  be listed.

  The route handlers answer with \<^verbatim>\<open>NextResponse.json(obj, { status })\<close>: a status code and
  a JSON object.
\<close>

datatype json =
    JNull
  | JBool bool
  | JNum real
  | JStr string
  | JArr "json list"
  | JObj "(string \<times> json) list"

record response =
  status :: nat
  body :: "(string \<times> json) list"

definition json_response :: "(string \<times> json) list \<Rightarrow> nat \<Rightarrow> response" where
  "json_response obj code = \<lparr>status = code, body = obj\<rparr>"

definition failure :: "string \<Rightarrow> nat \<Rightarrow> response" where
  \<comment> \<open>\<^verbatim>\<open>{ success: false, message }\<close> with a status\<close>
  "failure msg code = json_response [(''success'', JBool False), (''message'', JStr msg)] code"

text \<open>
  A thrown JavaScript error, with the three properties the catch blocks read: \<^verbatim>\<open>name\<close>,
  \<^verbatim>\<open>message\<close>, and the messages of \<^verbatim>\<open>Object.values(error.errors)\<close>.
\<close>

record js_error =
  err_name :: string
  err_message :: string
  err_errors :: "string list"

definition Error :: "string \<Rightarrow> js_error" where
  \<comment> \<open>\<^verbatim>\<open>new Error(msg)\<close>\<close>
  "Error msg = \<lparr>err_name = ''Error'', err_message = msg, err_errors = []\<rparr>"

text \<open>
  A value that is a string, or \<^verbatim>\<open>undefined\<close>/\<^verbatim>\<open>null\<close>, is a \<open>string option\<close>. JavaScript's
  \<^verbatim>\<open>!v\<close> holds for the missing value and for the empty string.
\<close>

definition falsy :: "string option \<Rightarrow> bool" where
  "falsy v = (case v of None \<Rightarrow> True | Some s \<Rightarrow> s = [])"

text \<open>
  The same test on any value: \<^verbatim>\<open>undefined\<close> (a missing property, \<open>None\<close>), \<^verbatim>\<open>null\<close>, \<^verbatim>\<open>false\<close>,
  zero and the empty string are falsy; every other number and string, every array and every
  object is truthy.
\<close>

fun js_falsy :: "json option \<Rightarrow> bool" where
  "js_falsy None = True"
| "js_falsy (Some JNull) = True"
| "js_falsy (Some (JBool b)) = (\<not> b)"
| "js_falsy (Some (JNum x)) = (x = 0)"
| "js_falsy (Some (JStr s)) = (s = [])"
| "js_falsy (Some (JArr xs)) = False"
| "js_falsy (Some (JObj props)) = False"

definition startsWith :: "string \<Rightarrow> string \<Rightarrow> bool" where
  "startsWith s p = (take (length p) s = p)"

definition substring :: "string \<Rightarrow> nat \<Rightarrow> string" where
  \<comment> \<open>\<^verbatim>\<open>s.substring(n)\<close>: empty when \<open>n\<close> is beyond the end\<close>
  "substring s n = drop n s"

fun join :: "string list \<Rightarrow> string \<Rightarrow> string" where
  "join [] sep = []"
| "join [x] sep = x"
| "join (x # y # ys) sep = x @ sep @ join (y # ys) sep"

section \<open>Process configuration (lib/jwt.js, the two constants)\<close>

record process_env =
  env_JWT_SECRET :: "string option"
  env_JWT_EXPIRES_IN :: "string option"

definition or_default :: "string option \<Rightarrow> string \<Rightarrow> string" where
  \<comment> \<open>\<^verbatim>\<open>process.env.X || d\<close>: an unset and an empty variable both give the default\<close>
  "or_default v d = (if falsy v then d else the v)"

definition JWT_SECRET :: "process_env \<Rightarrow> string" where
  "JWT_SECRET env = or_default (env_JWT_SECRET env) ''your-super-secret-jwt-key''"

definition JWT_EXPIRES_IN :: "process_env \<Rightarrow> string" where
  "JWT_EXPIRES_IN env = or_default (env_JWT_EXPIRES_IN env) ''7d''"

section \<open>The token library\<close>

text \<open>
  The payload the handlers sign: \<^verbatim>\<open>{ userId, email, name, role }\<close>. A verified token decodes
  to the same fields plus issued-at and expiry, in seconds.
\<close>

record claims =
  userId :: string
  email :: string
  name :: string
  role :: string

record jwt_payload = claims +
  iat :: nat
  exp :: nat

text \<open>
  Modelled from the spec: the \<^verbatim>\<open>jsonwebtoken\<close> package (\<^verbatim>\<open>jwt.sign\<close>, \<^verbatim>\<open>jwt.verify\<close>) is imported
  by lib/jwt.js and is not part of the sources. Sections 3 and 4.2 of the specification give
  its contract: a token encodes the claims plus issued-at and expiry = issued-at + ttl and
  carries a signature under one secret; verification fails if the signature does not match,
  the structure is malformed, or the current time is greater than the expiry.

  The signature is the symbolic term \<open>HMAC key content\<close> (perfect cryptography: two signatures
  are equal only if made with the same key over the same content). The compact string form
  of a token and the reading of a time-span string such as \<^verbatim>\<open>'7d'\<close> are the library's own and
  stay parameters: \<open>compact\<close>, \<open>parse\<close> (\<open>None\<close> for a string that is not a token), and
  \<open>timespan\<close> in seconds (\<open>None\<close> for a string that is not a time span).
\<close>

datatype hmac = HMAC string jwt_payload

record jwt =
  payload :: jwt_payload
  signature :: hmac

record jwt_lib =
  compact :: "jwt \<Rightarrow> string"
  parse :: "string \<Rightarrow> jwt option"
  timespan :: "string \<Rightarrow> nat option"

datatype jwt_failure = Malformed | InvalidSignature | TokenExpired

definition stamped :: "claims \<Rightarrow> nat \<Rightarrow> nat \<Rightarrow> jwt_payload" where
  \<comment> \<open>the claims plus issued-at and expiry = issued-at + ttl\<close>
  "stamped c t0 ttl =
     \<lparr>userId = userId c, email = email c, name = name c, role = role c,
      iat = t0, exp = t0 + ttl\<rparr>"

definition signed :: "claims \<Rightarrow> string \<Rightarrow> nat \<Rightarrow> nat \<Rightarrow> jwt" where
  "signed c secret t0 ttl =
     \<lparr>payload = stamped c t0 ttl, signature = HMAC secret (stamped c t0 ttl)\<rparr>"

definition jwt_sign :: "jwt_lib \<Rightarrow> nat \<Rightarrow> claims \<Rightarrow> string \<Rightarrow> string \<Rightarrow> js_error + string" where
  \<comment> \<open>\<^verbatim>\<open>jwt.sign(payload, secret, { expiresIn })\<close> at clock time \<open>now\<close>\<close>
  "jwt_sign L now c secret expiresIn =
     (case timespan L expiresIn of
        None \<Rightarrow> Inl (Error ''invalid expiresIn option'')
      | Some ttl \<Rightarrow> Inr (compact L (signed c secret now ttl)))"

definition jwt_verify :: "jwt_lib \<Rightarrow> nat \<Rightarrow> string \<Rightarrow> string \<Rightarrow> jwt_failure + jwt_payload" where
  \<comment> \<open>\<^verbatim>\<open>jwt.verify(token, secret)\<close> at clock time \<open>now\<close>\<close>
  "jwt_verify L now token secret =
     (case parse L token of
        None \<Rightarrow> Inl Malformed
      | Some t \<Rightarrow>
          if signature t \<noteq> HMAC secret (payload t) then Inl InvalidSignature
          else if exp (payload t) < now then Inl TokenExpired
          else Inr (payload t))"

section \<open>Token Service (lib/jwt.js)\<close>

definition generateToken :: "jwt_lib \<Rightarrow> process_env \<Rightarrow> nat \<Rightarrow> claims \<Rightarrow> js_error + string" where
  "generateToken L env now c = jwt_sign L now c (JWT_SECRET env) (JWT_EXPIRES_IN env)"

definition verifyToken :: "jwt_lib \<Rightarrow> process_env \<Rightarrow> nat \<Rightarrow> string \<Rightarrow> js_error + jwt_payload" where
  \<comment> \<open>whatever \<^verbatim>\<open>jwt.verify\<close> throws is replaced by \<^verbatim>\<open>new Error('Invalid token')\<close>\<close>
  "verifyToken L env now token =
     (case jwt_verify L now token (JWT_SECRET env) of
        Inl _ \<Rightarrow> Inl (Error ''Invalid token'')
      | Inr decoded \<Rightarrow> Inr decoded)"

definition extractTokenFromHeader :: "string option \<Rightarrow> string option" where
  "extractTokenFromHeader authHeader =
     (if falsy authHeader \<or> \<not> startsWith (the authHeader) ''Bearer '' then None
      else Some (substring (the authHeader) 7))"

section \<open>Authorization Gate (verifyJWT in lib/jwt.js)\<close>

text \<open>
  The request as the gate sees it: \<^verbatim>\<open>req.headers.authorization\<close> and the \<^verbatim>\<open>req.user\<close> slot.
  The wrapped handler either returns (its value, for an asynchronous handler its promise) or
  throws synchronously; a synchronous throw lands in the gate's own \<^verbatim>\<open>catch\<close>.
\<close>

record request =
  headers_authorization :: "string option"
  req_user :: "jwt_payload option"

datatype 'r handler_outcome = Returned 'r | Threw js_error

datatype 'r gate_outcome = Rejected response | Passed 'r

text \<open>
  One run of the gate: what the caller gets, the request afterwards, the raw tokens given to
  \<^verbatim>\<open>verifyToken\<close> and the requests the handler was invoked with, in order.
\<close>

record 'r gate_run =
  outcome :: "'r gate_outcome"
  req_after :: request
  verified :: "string list"
  handled :: "request list"

definition verifyJWT ::
  "jwt_lib \<Rightarrow> process_env \<Rightarrow> nat \<Rightarrow> (request \<Rightarrow> 'r handler_outcome) \<Rightarrow> request \<Rightarrow> 'r gate_run" where
  "verifyJWT L env now handler req =
     (let authHeader = headers_authorization req;
          token = extractTokenFromHeader authHeader
      in if falsy token then
           \<lparr>outcome = Rejected (failure ''Access denied. No token provided.'' 401),
            req_after = req, verified = [], handled = []\<rparr>
         else
           (case verifyToken L env now (the token) of
              Inl error \<Rightarrow>
                \<lparr>outcome = Rejected (failure ''Invalid token.'' 401),
                 req_after = req, verified = [the token], handled = []\<rparr>
            | Inr decoded \<Rightarrow>
                (let req' = req\<lparr>req_user := Some decoded\<rparr>
                 in case handler req' of
                      Returned r \<Rightarrow>
                        \<lparr>outcome = Passed r, req_after = req',
                         verified = [the token], handled = [req']\<rparr>
                    | Threw error \<Rightarrow>
                        \<lparr>outcome = Rejected (failure ''Invalid token.'' 401),
                         req_after = req', verified = [the token], handled = [req']\<rparr>)))"

section \<open>Credential Store, as the route handlers use it\<close>

text \<open>
  A user document with the fields the handlers read. \<open>doc_password\<close> holds the stored hash;
  it is \<open>None\<close> on a document fetched with the password excluded from the projection.
\<close>

record user_doc =
  doc_id :: string
  doc_name :: string
  doc_email :: string
  doc_role :: string
  doc_avatar :: string
  doc_isVerified :: bool
  doc_createdAt :: string
  doc_password :: "string option"

text \<open>
  Modelled from the spec: models/User.js and lib/mongodb.js are imported by the route
  handlers and are not part of the sources. Section 2 of the specification treats the
  Credential Store as an external collaborator with lookup and insert operations, and
  section 4.1 gives the password check as a function to a boolean. Each operation is a
  parameter that either throws or returns: \<open>dbConnect\<close> (\<open>None\<close>: connected),
  \<open>findOne\<close> by the email value, \<open>save\<close> of a new document built from the name, email and
  password values as the handler got them (the saved document comes back with its identifier,
  defaults and hashed password),
  \<open>comparePassword\<close> of a document against the password value, \<open>findById\<close>.
\<close>

record user_model =
  dbConnect :: "js_error option"
  findOne :: "json \<Rightarrow> js_error + user_doc option"
  save :: "json \<Rightarrow> json \<Rightarrow> json \<Rightarrow> js_error + user_doc"
  comparePassword :: "user_doc \<Rightarrow> json \<Rightarrow> js_error + bool"
  findById :: "string \<Rightarrow> js_error + user_doc option"

definition select_minus_password :: "user_doc \<Rightarrow> user_doc" where
  \<comment> \<open>\<^verbatim>\<open>.select('-password')\<close>\<close>
  "select_minus_password u = u\<lparr>doc_password := None\<rparr>"

text \<open>The collaborator calls a handler makes, in order.\<close>

datatype event =
    DbConnect
  | ReadBody
  | FindOne json
  | Save json json json
  | ComparePassword user_doc json
  | FindById string
  | GenerateToken claims
  | VerifyToken string

definition userData :: "user_doc \<Rightarrow> (string \<times> json) list" where
  \<comment> \<open>the \<^verbatim>\<open>userData\<close> object literal, the same in the three handlers\<close>
  "userData u =
     [(''id'', JStr (doc_id u)),
      (''name'', JStr (doc_name u)),
      (''email'', JStr (doc_email u)),
      (''role'', JStr (doc_role u)),
      (''avatar'', JStr (doc_avatar u)),
      (''isVerified'', JBool (doc_isVerified u)),
      (''createdAt'', JStr (doc_createdAt u))]"

definition token_claims :: "user_doc \<Rightarrow> claims" where
  \<comment> \<open>\<^verbatim>\<open>{ userId: user._id, email: user.email, name: user.name, role: user.role }\<close>\<close>
  "token_claims u =
     \<lparr>userId = doc_id u, email = doc_email u, name = doc_name u, role = doc_role u\<rparr>"

section \<open>Signup (POST /api/auth/signup)\<close>

text \<open>
  The request body after \<^verbatim>\<open>await request.json()\<close> and destructuring: each of the three is any
  JSON value, or missing. Reading the body can itself throw.
\<close>

record signup_body =
  body_name :: "json option"
  body_email :: "json option"
  body_password :: "json option"


text \<open>
  The second test is \<^verbatim>\<open>password.length < 6\<close>. A string and an array have a length; an object has
  the \<^verbatim>\<open>length\<close> property it was given, if any (of a repeated key the last one counts); a
  number and a boolean have none; reading a property of \<^verbatim>\<open>null\<close> throws.
\<close>

definition TypeError :: "string \<Rightarrow> js_error" where
  "TypeError msg = \<lparr>err_name = ''TypeError'', err_message = msg, err_errors = []\<rparr>"

fun property_length :: "json \<Rightarrow> js_error + json option" where
  "property_length JNull = Inl (TypeError ''Cannot read properties of null'')"
| "property_length (JBool b) = Inr None"
| "property_length (JNum x) = Inr None"
| "property_length (JStr s) = Inr (Some (JNum (real (length s))))"
| "property_length (JArr xs) = Inr (Some (JNum (real (length xs))))"
| "property_length (JObj props) = Inr (map_of (rev props) ''length'')"

text \<open>
  \<^verbatim>\<open>v < n\<close> for a number \<open>n\<close>: \<open>v\<close> is converted to a number and compared, and a comparison
  with \<^verbatim>\<open>NaN\<close> is false. \<^verbatim>\<open>undefined\<close> converts to \<^verbatim>\<open>NaN\<close>, \<^verbatim>\<open>null\<close> to 0, \<^verbatim>\<open>false\<close> and
  \<^verbatim>\<open>true\<close> to 0 and 1. The conversion of a string, an array or an object is the language's own
  and stays a parameter, \<open>to_number\<close> (\<open>None\<close> for \<^verbatim>\<open>NaN\<close>); it can throw.
\<close>

definition less_than ::
  "(json \<Rightarrow> js_error + real option) \<Rightarrow> json option \<Rightarrow> real \<Rightarrow> js_error + bool" where
  "less_than to_number v n =
     (case v of
        None \<Rightarrow> Inr False
      | Some JNull \<Rightarrow> Inr (0 < n)
      | Some (JBool b) \<Rightarrow> Inr ((if b then 1 else 0) < n)
      | Some (JNum x) \<Rightarrow> Inr (x < n)
      | Some w \<Rightarrow>
          (case to_number w of
             Inl error \<Rightarrow> Inl error
           | Inr None \<Rightarrow> Inr False
           | Inr (Some x) \<Rightarrow> Inr (x < n)))"

definition password_too_short ::
  "(json \<Rightarrow> js_error + real option) \<Rightarrow> json \<Rightarrow> js_error + bool" where
  \<comment> \<open>\<^verbatim>\<open>password.length < 6\<close>\<close>
  "password_too_short to_number password =
     (case property_length password of
        Inl error \<Rightarrow> Inl error
      | Inr len \<Rightarrow> less_than to_number len 6)"

definition signup_catch :: "js_error \<Rightarrow> response" where
  "signup_catch error =
     (if err_name error = ''ValidationError''
      then failure (join (err_errors error) '', '') 400
      else failure ''Internal server error'' 500)"

definition signup_POST ::
  "user_model \<Rightarrow> jwt_lib \<Rightarrow> process_env \<Rightarrow> nat \<Rightarrow> (json \<Rightarrow> js_error + real option) \<Rightarrow>
   js_error + signup_body \<Rightarrow> response \<times> event list" where
  "signup_POST U L env now to_number request_json =
     (case dbConnect U of
        Some error \<Rightarrow> (signup_catch error, [DbConnect])
      | None \<Rightarrow>
     (case request_json of
        Inl error \<Rightarrow> (signup_catch error, [DbConnect, ReadBody])
      | Inr b \<Rightarrow>
     (if js_falsy (body_name b) \<or> js_falsy (body_email b) \<or> js_falsy (body_password b) then
        (failure ''Please provide all required fields'' 400, [DbConnect, ReadBody])
      else
     (case password_too_short to_number (the (body_password b)) of
        Inl error \<Rightarrow> (signup_catch error, [DbConnect, ReadBody])
      | Inr short \<Rightarrow>
     (if short then
        (failure ''Password must be at least 6 characters long'' 400, [DbConnect, ReadBody])
      else
        (let name = the (body_name b); email = the (body_email b);
             password = the (body_password b)
         in case findOne U email of
              Inl error \<Rightarrow> (signup_catch error, [DbConnect, ReadBody, FindOne email])
            | Inr (Some existingUser) \<Rightarrow>
                (failure ''User already exists with this email'' 409,
                 [DbConnect, ReadBody, FindOne email])
            | Inr None \<Rightarrow>
           (case save U name email password of
              Inl error \<Rightarrow>
                (signup_catch error,
                 [DbConnect, ReadBody, FindOne email, Save name email password])
            | Inr user \<Rightarrow>
           (case generateToken L env now (token_claims user) of
              Inl error \<Rightarrow>
                (signup_catch error,
                 [DbConnect, ReadBody, FindOne email, Save name email password,
                  GenerateToken (token_claims user)])
            | Inr token \<Rightarrow>
                (json_response
                   [(''success'', JBool True),
                    (''message'', JStr ''User created successfully''),
                    (''user'', JObj (userData user)),
                    (''token'', JStr token)] 201,
                 [DbConnect, ReadBody, FindOne email, Save name email password,
                  GenerateToken (token_claims user)])))))))))"

section \<open>Login (POST /api/auth/login)\<close>

text \<open>The request body after destructuring: each field is any JSON value, or missing.\<close>

record login_body =
  login_email :: "json option"
  login_password :: "json option"

definition login_catch :: "js_error \<Rightarrow> response" where
  "login_catch error = failure ''Internal server error'' 500"

definition login_POST ::
  "user_model \<Rightarrow> jwt_lib \<Rightarrow> process_env \<Rightarrow> nat \<Rightarrow> js_error + login_body \<Rightarrow> response \<times> event list" where
  "login_POST U L env now request_json =
     (case dbConnect U of
        Some error \<Rightarrow> (login_catch error, [DbConnect])
      | None \<Rightarrow>
     (case request_json of
        Inl error \<Rightarrow> (login_catch error, [DbConnect, ReadBody])
      | Inr b \<Rightarrow>
     (if js_falsy (login_email b) \<or> js_falsy (login_password b) then
        (failure ''Please provide email and password'' 400, [DbConnect, ReadBody])
      else
        (let email = the (login_email b); password = the (login_password b)
         in case findOne U email of
              Inl error \<Rightarrow> (login_catch error, [DbConnect, ReadBody, FindOne email])
            | Inr None \<Rightarrow>
                (failure ''Invalid email or password'' 401,
                 [DbConnect, ReadBody, FindOne email])
            | Inr (Some user) \<Rightarrow>
           (case comparePassword U user password of
              Inl error \<Rightarrow>
                (login_catch error,
                 [DbConnect, ReadBody, FindOne email, ComparePassword user password])
            | Inr isPasswordValid \<Rightarrow>
           (if \<not> isPasswordValid then
              (failure ''Invalid email or password'' 401,
               [DbConnect, ReadBody, FindOne email, ComparePassword user password])
            else
           (case generateToken L env now (token_claims user) of
              Inl error \<Rightarrow>
                (login_catch error,
                 [DbConnect, ReadBody, FindOne email, ComparePassword user password,
                  GenerateToken (token_claims user)])
            | Inr token \<Rightarrow>
                (json_response
                   [(''success'', JBool True),
                    (''message'', JStr ''Login successful''),
                    (''user'', JObj (userData user)),
                    (''token'', JStr token)] 200,
                 [DbConnect, ReadBody, FindOne email, ComparePassword user password,
                  GenerateToken (token_claims user)]))))))))"

section \<open>Me (GET /api/auth/me)\<close>

definition me_catch :: "js_error \<Rightarrow> response" where
  "me_catch error =
     (if err_message error = ''Invalid token''
      then failure ''Invalid token'' 401
      else failure ''Internal server error'' 500)"

definition me_GET ::
  "user_model \<Rightarrow> jwt_lib \<Rightarrow> process_env \<Rightarrow> nat \<Rightarrow> string option \<Rightarrow> response \<times> event list" where
  \<comment> \<open>the last argument is \<^verbatim>\<open>request.headers.get('authorization')\<close>\<close>
  "me_GET U L env now authHeader =
     (case dbConnect U of
        Some error \<Rightarrow> (me_catch error, [DbConnect])
      | None \<Rightarrow>
     (let token = extractTokenFromHeader authHeader
      in if falsy token then
           (failure ''Access denied. No token provided.'' 401, [DbConnect])
         else
           (case verifyToken L env now (the token) of
              Inl error \<Rightarrow> (me_catch error, [DbConnect, VerifyToken (the token)])
            | Inr decoded \<Rightarrow>
           (case findById U (userId decoded) of
              Inl error \<Rightarrow>
                (me_catch error,
                 [DbConnect, VerifyToken (the token), FindById (userId decoded)])
            | Inr found \<Rightarrow>
           (case map_option select_minus_password found of
              None \<Rightarrow>
                (failure ''User not found'' 404,
                 [DbConnect, VerifyToken (the token), FindById (userId decoded)])
            | Some user \<Rightarrow>
                (json_response
                   [(''success'', JBool True),
                    (''user'', JObj (userData user))] 200,
                 [DbConnect, VerifyToken (the token), FindById (userId decoded)]))))))"

section \<open>Password Hasher\<close>

text \<open>
  Modelled from the spec: the Password Hasher (the hashing on save and \<^verbatim>\<open>comparePassword\<close> of
  models/User.js) is not part of the sources. Section 4.1 of the specification gives its
  contract: \<open>hash\<close> is a salted one-way transform that embeds its salt and fails only when
  no salt can be drawn; \<open>verify\<close> compares, returns false on a mismatch and fails only on a
  hash of the wrong format. The one-way transform is the symbolic term \<open>Digest salt plaintext\<close>
  (perfect cryptography: two digests are equal only if made from the same salt and the same
  plaintext). The first argument of \<open>hash\<close> is the salt drawn from the entropy source,
  \<open>None\<close> when the source is unavailable.
\<close>

datatype digest = Digest string string

datatype password_hash = Salted string digest | Illformed string

datatype hashing_error = HashingError

definition hash :: "string option \<Rightarrow> string \<Rightarrow> hashing_error + password_hash" where
  "hash entropy plaintext =
     (case entropy of
        None \<Rightarrow> Inl HashingError
      | Some salt \<Rightarrow> Inr (Salted salt (Digest salt plaintext)))"

definition verify :: "string \<Rightarrow> password_hash \<Rightarrow> hashing_error + bool" where
  "verify plaintext h =
     (case h of
        Illformed _ \<Rightarrow> Inl HashingError
      | Salted salt d \<Rightarrow> Inr (d = Digest salt plaintext))"

section \<open>Example values\<close>

text \<open>
  The specification's concrete scenario (Ann, \<^verbatim>\<open>ann@x.com\<close>, \<^verbatim>\<open>secret1\<close>; Bob signing up), a
  process with neither environment variable set, and a token library that knows one compact
  string, \<^verbatim>\<open>tok\<close>, and the time span \<^verbatim>\<open>7d\<close> as 604800 seconds.
\<close>

definition ann_claims :: claims where
  "ann_claims = \<lparr>userId = ''u1'', email = ''ann@x.com'', name = ''Ann'', role = ''user''\<rparr>"

definition one_token_lib :: "jwt \<Rightarrow> jwt_lib" where
  "one_token_lib t =
     \<lparr>compact = (\<lambda>_. ''tok''),
      parse = (\<lambda>s. if s = ''tok'' then Some t else None),
      timespan = (\<lambda>s. if s = ''7d'' then Some 604800 else None)\<rparr>"

definition unset_env :: process_env where
  "unset_env = \<lparr>env_JWT_SECRET = None, env_JWT_EXPIRES_IN = None\<rparr>"

definition ann_jwt :: jwt where
  "ann_jwt = signed ann_claims ''your-super-secret-jwt-key'' 1000 604800"

definition bearer_request :: "string \<Rightarrow> request" where
  "bearer_request h = \<lparr>headers_authorization = Some h, req_user = None\<rparr>"

definition ok_handler :: "request \<Rightarrow> response handler_outcome" where
  "ok_handler req = Returned (json_response [(''success'', JBool True)] 200)"

definition rotated_env :: process_env where
  "rotated_env = \<lparr>env_JWT_SECRET = Some ''rotated-secret'', env_JWT_EXPIRES_IN = None\<rparr>"

definition ann_doc :: user_doc where
  "ann_doc =
     \<lparr>doc_id = ''u1'', doc_name = ''Ann'', doc_email = ''ann@x.com'', doc_role = ''user'',
      doc_avatar = '''', doc_isVerified = False, doc_createdAt = ''2024-01-01T00:00:00.000Z'',
      doc_password = Some ''$2a$12$hash-of-secret1''\<rparr>"

definition validation_error :: js_error where
  \<comment> \<open>a Mongoose validation error with two field messages\<close>
  "validation_error =
     \<lparr>err_name = ''ValidationError'', err_message = ''User validation failed'',
      err_errors = [''Please enter a valid email'', ''Name cannot be more than 50 characters'']\<rparr>"

definition new_doc :: "json \<Rightarrow> json \<Rightarrow> js_error + user_doc" where
  \<comment> \<open>the document saved for a name and an email that are strings\<close>
  "new_doc n e =
     (case n of
        JStr n' \<Rightarrow>
          (case e of
             JStr e' \<Rightarrow> Inr (ann_doc\<lparr>doc_id := ''u2'', doc_name := n', doc_email := e'\<rparr>)
           | _ \<Rightarrow> Inl validation_error)
      | _ \<Rightarrow> Inl validation_error)"

definition ann_store :: user_model where
  \<comment> \<open>a store holding Ann's record only; her password is \<^verbatim>\<open>secret1\<close>\<close>
  "ann_store =
     \<lparr>dbConnect = None,
      findOne = (\<lambda>e. Inr (if e = JStr ''ann@x.com'' then Some ann_doc else None)),
      save = (\<lambda>n e p. new_doc n e),
      comparePassword = (\<lambda>u p. Inr (p = JStr ''secret1'')),
      findById = (\<lambda>i. Inr (if i = ''u1'' then Some ann_doc else None))\<rparr>"

definition login_request :: "string \<Rightarrow> string \<Rightarrow> js_error + login_body" where
  "login_request e p = Inr \<lparr>login_email = Some (JStr e), login_password = Some (JStr p)\<rparr>"







section \<open>The Authorization header\<close>

lemma length_Bearer: "length ''Bearer '' = 7"
  by simp

lemma startsWith_Bearer: "startsWith h ''Bearer '' \<longleftrightarrow> (\<exists>t. h = ''Bearer '' @ t)"
proof
  assume "startsWith h ''Bearer ''"
  then have "take (length ''Bearer '') h = ''Bearer ''" unfolding startsWith_def .
  then have "h = ''Bearer '' @ drop (length ''Bearer '') h" by (metis append_take_drop_id)
  then show "\<exists>t. h = ''Bearer '' @ t" ..
next
  assume "\<exists>t. h = ''Bearer '' @ t"
  then show "startsWith h ''Bearer ''" unfolding startsWith_def by auto
qed

lemma substring_Bearer: "substring (''Bearer '' @ t) 7 = t"
  unfolding substring_def length_Bearer [symmetric] by simp

lemma extract_Some:
  "extractTokenFromHeader h = Some tok \<longleftrightarrow>
     (\<exists>s. h = Some s \<and> startsWith s ''Bearer '' \<and> tok = substring s 7)"
  by (cases h) (auto simp: extractTokenFromHeader_def falsy_def startsWith_def)

lemma verifyJWT_cases:
  "verifyJWT L env now handler req =
     (case extractTokenFromHeader (headers_authorization req) of
        None \<Rightarrow> \<lparr>outcome = Rejected (failure ''Access denied. No token provided.'' 401),
            req_after = req, verified = [], handled = []\<rparr>
      | Some tok \<Rightarrow> if tok = [] then \<lparr>outcome = Rejected (failure ''Access denied. No token provided.'' 401),
            req_after = req, verified = [], handled = []\<rparr> else
         (case verifyToken L env now tok of
              Inl error \<Rightarrow>
                \<lparr>outcome = Rejected (failure ''Invalid token.'' 401),
                 req_after = req, verified = [tok], handled = []\<rparr>
            | Inr decoded \<Rightarrow>
                 (case handler (req\<lparr>req_user := Some decoded\<rparr>) of
                      Returned r \<Rightarrow>
                        \<lparr>outcome = Passed r, req_after = req\<lparr>req_user := Some decoded\<rparr>,
                         verified = [tok], handled = [req\<lparr>req_user := Some decoded\<rparr>]\<rparr>
                    | Threw error \<Rightarrow>
                        \<lparr>outcome = Rejected (failure ''Invalid token.'' 401),
                         req_after = req\<lparr>req_user := Some decoded\<rparr>, verified = [tok], handled = [req\<lparr>req_user := Some decoded\<rparr>]\<rparr>)))"
  by (simp add: verifyJWT_def Let_def falsy_def split: option.splits sum.splits handler_outcome.splits)

lemma extract_None:
  "extractTokenFromHeader h = None \<longleftrightarrow>
     (h = None \<or> (\<exists>s. h = Some s \<and> \<not> startsWith s ''Bearer ''))"
  by (cases h) (auto simp: extractTokenFromHeader_def falsy_def startsWith_def)

lemma extract_Bearer: "extractTokenFromHeader (Some (''Bearer '' @ t)) = Some t"
  using startsWith_Bearer [of "''Bearer '' @ t"] substring_Bearer [of t]
  by (simp add: extractTokenFromHeader_def falsy_def)

lemma verifyJWT_handled_le: "length (handled (verifyJWT L env now handler req)) \<le> 1"
  by (simp add: verifyJWT_cases split: option.splits sum.splits handler_outcome.splits)

lemma verifyJWT_handled_only_verified:
  assumes "r \<in> set (handled (verifyJWT L env now handler req))"
  shows "\<exists>tok decoded. headers_authorization req = Some (''Bearer '' @ tok) \<and> tok \<noteq> [] \<and>
           verifyToken L env now tok = Inr decoded \<and> r = req\<lparr>req_user := Some decoded\<rparr> \<and>
           req_after (verifyJWT L env now handler req) = r \<and>
           verified (verifyJWT L env now handler req) = [tok] \<and>
           handled (verifyJWT L env now handler req) = [r]"
proof (cases "extractTokenFromHeader (headers_authorization req)")
  case None
  with assms show ?thesis by (simp add: verifyJWT_cases)
next
  case (Some tok)
  then obtain s where s: "headers_authorization req = Some s" "startsWith s ''Bearer ''"
      "tok = substring s 7"
    by (auto simp: extract_Some)
  then obtain t where t: "s = ''Bearer '' @ t" by (auto simp: startsWith_Bearer)
  with s have tok: "tok = t" using substring_Bearer [of t] by simp
  from assms Some have ne: "tok \<noteq> []" by (auto simp: verifyJWT_cases)
  from assms Some ne obtain decoded where d: "verifyToken L env now tok = Inr decoded"
    by (cases "verifyToken L env now tok") (auto simp: verifyJWT_cases)
  from assms Some ne d have "r = req\<lparr>req_user := Some decoded\<rparr> \<and>
           req_after (verifyJWT L env now handler req) = r \<and>
           verified (verifyJWT L env now handler req) = [tok] \<and>
           handled (verifyJWT L env now handler req) = [r]"
    by (cases "handler (req\<lparr>req_user := Some decoded\<rparr>)") (auto simp: verifyJWT_cases)
  with s t tok ne d show ?thesis by auto
qed

lemma verifyJWT_rejections:
  assumes "headers_authorization req = None \<or>
           (\<exists>h. headers_authorization req = Some h \<and> \<not> startsWith h ''Bearer '') \<or>
           headers_authorization req = Some ''Bearer '' \<or>
           (\<exists>tok e. headers_authorization req = Some (''Bearer '' @ tok) \<and>
              verifyToken L env now tok = Inl e)"
  shows "handled (verifyJWT L env now handler req) = [] \<and>
         req_after (verifyJWT L env now handler req) = req \<and>
         (\<exists>resp. outcome (verifyJWT L env now handler req) = Rejected resp \<and> status resp = 401)"
proof -
  consider (none) "extractTokenFromHeader (headers_authorization req) = None"
    | (empty) "extractTokenFromHeader (headers_authorization req) = Some []"
    | (bad) tok e where "extractTokenFromHeader (headers_authorization req) = Some tok"
        "verifyToken L env now tok = Inl e"
    using assms extract_Bearer [of "[]"] extract_Bearer by (auto simp: extract_None)
  then show ?thesis
    by cases (auto simp: verifyJWT_cases failure_def json_response_def)
qed

section \<open>Authorization Gate\<close>

text \<open>
  C1. In every run of \<^verbatim>\<open>verifyJWT\<close> the handler is invoked at most once; when it is invoked,
  the header was \<^verbatim>\<open>Bearer \<close> followed by a non-empty token, the one call of \<^verbatim>\<open>verifyToken\<close> on
  that token succeeded, and the handler received the request with the decoded claims in
  \<^verbatim>\<open>req.user\<close>. On each rejection path (no header, wrong prefix, empty token, failed
  verification) the handler is not invoked, the request is left as it was (no identity
  attached) and the answer is a 401.
\<close>

theorem verifyJWT_invokes_handler_once_verified:
  "length (handled (verifyJWT L env now handler req)) \<le> 1 \<and>
   (\<forall>r \<in> set (handled (verifyJWT L env now handler req)).
      \<exists>tok decoded. headers_authorization req = Some (''Bearer '' @ tok) \<and> tok \<noteq> [] \<and>
        verifyToken L env now tok = Inr decoded \<and> r = req\<lparr>req_user := Some decoded\<rparr> \<and>
        req_after (verifyJWT L env now handler req) = r \<and>
        verified (verifyJWT L env now handler req) = [tok] \<and>
        handled (verifyJWT L env now handler req) = [r]) \<and>
   (headers_authorization req = None \<or>
    (\<exists>h. headers_authorization req = Some h \<and> \<not> startsWith h ''Bearer '') \<or>
    headers_authorization req = Some ''Bearer '' \<or>
    (\<exists>tok e. headers_authorization req = Some (''Bearer '' @ tok) \<and>
       verifyToken L env now tok = Inl e)
    \<longrightarrow> handled (verifyJWT L env now handler req) = [] \<and>
        req_after (verifyJWT L env now handler req) = req \<and>
        (\<exists>resp. outcome (verifyJWT L env now handler req) = Rejected resp \<and> status resp = 401))"
  using verifyJWT_handled_le [of L env now handler req]
    verifyJWT_handled_only_verified [of _ L env now handler req]
    verifyJWT_rejections [of req L env now handler]
  by blast

lemma verifyToken_ann:
  "verifyToken (one_token_lib ann_jwt) unset_env 2000 ''tok'' = Inr (stamped ann_claims 1000 604800)"
  by (simp add: verifyToken_def jwt_verify_def one_token_lib_def ann_jwt_def signed_def
      JWT_SECRET_def or_default_def falsy_def unset_env_def stamped_def)

lemma verifyToken_not_a_token:
  "verifyToken (one_token_lib ann_jwt) unset_env 2000 ''forged'' = Inl (Error ''Invalid token'')"
  by (simp add: verifyToken_def jwt_verify_def one_token_lib_def)

theorem verifyJWT_invokes_handler_once_verified_witness:
  "handled (verifyJWT (one_token_lib ann_jwt) unset_env 2000 ok_handler (bearer_request ''Bearer tok''))
     = [(bearer_request ''Bearer tok'')\<lparr>req_user := Some (stamped ann_claims 1000 604800)\<rparr>] \<and>
   verifyToken (one_token_lib ann_jwt) unset_env 2000 ''tok'' = Inr (stamped ann_claims 1000 604800) \<and>
   handled (verifyJWT (one_token_lib ann_jwt) unset_env 2000 ok_handler (bearer_request ''Basic xyz'')) = [] \<and>
   req_after (verifyJWT (one_token_lib ann_jwt) unset_env 2000 ok_handler (bearer_request ''Basic xyz''))
     = bearer_request ''Basic xyz'' \<and>
   handled (verifyJWT (one_token_lib ann_jwt) unset_env 2000 ok_handler (bearer_request ''Bearer forged'')) = [] \<and>
   req_after (verifyJWT (one_token_lib ann_jwt) unset_env 2000 ok_handler (bearer_request ''Bearer forged''))
     = bearer_request ''Bearer forged''"
proof -
  let ?run = "verifyJWT (one_token_lib ann_jwt) unset_env 2000 ok_handler"
  have ex: "extractTokenFromHeader (Some ''Bearer tok'') = Some ''tok''"
    using extract_Bearer [of "''tok''"] by simp
  have mem: "(bearer_request ''Bearer tok'')\<lparr>req_user := Some (stamped ann_claims 1000 604800)\<rparr>
      \<in> set (handled (?run (bearer_request ''Bearer tok'')))"
    by (simp add: verifyJWT_cases bearer_request_def ex verifyToken_ann ok_handler_def)
  have basic: "headers_authorization (bearer_request ''Basic xyz'') = Some ''Basic xyz'' \<and>
      \<not> startsWith ''Basic xyz'' ''Bearer ''"
    by (simp add: bearer_request_def startsWith_def)
  have forged: "headers_authorization (bearer_request ''Bearer forged'') = Some (''Bearer '' @ ''forged'') \<and>
      verifyToken (one_token_lib ann_jwt) unset_env 2000 ''forged'' = Inl (Error ''Invalid token'')"
    by (simp add: bearer_request_def verifyToken_not_a_token)
  note inst = verifyJWT_invokes_handler_once_verified
    [of "one_token_lib ann_jwt" unset_env 2000 ok_handler]
  from inst [of "bearer_request ''Bearer tok''"] mem
  have 1: "handled (?run (bearer_request ''Bearer tok''))
     = [(bearer_request ''Bearer tok'')\<lparr>req_user := Some (stamped ann_claims 1000 604800)\<rparr>]"
    by blast
  from inst [of "bearer_request ''Basic xyz''"] basic
  have 2: "handled (?run (bearer_request ''Basic xyz'')) = [] \<and>
     req_after (?run (bearer_request ''Basic xyz'')) = bearer_request ''Basic xyz''"
    by blast
  from inst [of "bearer_request ''Bearer forged''"] forged
  have 3: "handled (?run (bearer_request ''Bearer forged'')) = [] \<and>
     req_after (?run (bearer_request ''Bearer forged'')) = bearer_request ''Bearer forged''"
    by blast
  from 1 2 3 verifyToken_ann show ?thesis by simp
qed

text \<open>
  C4. The gate answers 401 "no token" without calling \<^verbatim>\<open>verifyToken\<close> or the handler when the
  Authorization header is absent, does not start with the seven characters \<^verbatim>\<open>Bearer \<close>
  (compared character by character, so case-sensitively), or has nothing after that prefix;
  in every other case the one string given to \<^verbatim>\<open>verifyToken\<close> is the header from position 7 on.
\<close>

theorem gate_rejects_unless_bearer_token:
  "(headers_authorization req = None \<or>
    (\<exists>h. headers_authorization req = Some h \<and>
       (\<not> startsWith h ''Bearer '' \<or> substring h 7 = []))
    \<longrightarrow> outcome (verifyJWT L env now handler req)
          = Rejected (failure ''Access denied. No token provided.'' 401) \<and>
        status (failure ''Access denied. No token provided.'' 401) = 401 \<and>
        verified (verifyJWT L env now handler req) = [] \<and>
        handled (verifyJWT L env now handler req) = []) \<and>
   (\<forall>h. headers_authorization req = Some h \<and> startsWith h ''Bearer '' \<and> substring h 7 \<noteq> []
      \<longrightarrow> verified (verifyJWT L env now handler req) = [substring h 7]) \<and>
   (\<forall>h. startsWith h ''Bearer '' \<longleftrightarrow> (\<exists>t. h = ''Bearer '' @ t \<and> substring h 7 = t))"
proof (intro conjI impI allI)
  assume "headers_authorization req = None \<or>
    (\<exists>h. headers_authorization req = Some h \<and>
       (\<not> startsWith h ''Bearer '' \<or> substring h 7 = []))"
  then have "extractTokenFromHeader (headers_authorization req) = None \<or>
     extractTokenFromHeader (headers_authorization req) = Some []"
    by (cases "extractTokenFromHeader (headers_authorization req)")
       (auto simp: extract_None extract_Some)
  then show "outcome (verifyJWT L env now handler req)
          = Rejected (failure ''Access denied. No token provided.'' 401)"
    and "verified (verifyJWT L env now handler req) = []"
    and "handled (verifyJWT L env now handler req) = []"
    by (auto simp: verifyJWT_cases)
next
  show "status (failure ''Access denied. No token provided.'' 401) = 401"
    by (simp add: failure_def json_response_def)
next
  fix h
  assume "headers_authorization req = Some h \<and> startsWith h ''Bearer '' \<and> substring h 7 \<noteq> []"
  then have "extractTokenFromHeader (headers_authorization req) = Some (substring h 7)"
    and "substring h 7 \<noteq> []"
    by (auto simp: extract_Some)
  then show "verified (verifyJWT L env now handler req) = [substring h 7]"
    by (simp add: verifyJWT_cases split: sum.splits handler_outcome.splits)
next
  fix h
  show "startsWith h ''Bearer '' \<longleftrightarrow> (\<exists>t. h = ''Bearer '' @ t \<and> substring h 7 = t)"
    using substring_Bearer by (auto simp: startsWith_Bearer)
qed

theorem gate_rejects_unless_bearer_token_witness:
  "outcome (verifyJWT (one_token_lib ann_jwt) unset_env 2000 ok_handler (bearer_request ''Basic xyz''))
     = Rejected (failure ''Access denied. No token provided.'' 401) \<and>
   verified (verifyJWT (one_token_lib ann_jwt) unset_env 2000 ok_handler (bearer_request ''Basic xyz'')) = [] \<and>
   handled (verifyJWT (one_token_lib ann_jwt) unset_env 2000 ok_handler (bearer_request ''Basic xyz'')) = [] \<and>
   handled (verifyJWT (one_token_lib ann_jwt) unset_env 2000 ok_handler (bearer_request ''bearer tok'')) = [] \<and>
   handled (verifyJWT (one_token_lib ann_jwt) unset_env 2000 ok_handler (bearer_request ''Bearer '')) = [] \<and>
   verified (verifyJWT (one_token_lib ann_jwt) unset_env 2000 ok_handler (bearer_request ''Bearer tok''))
     = [''tok'']"
proof -
  let ?run = "verifyJWT (one_token_lib ann_jwt) unset_env 2000 ok_handler"
  note inst = gate_rejects_unless_bearer_token [of _ "one_token_lib ann_jwt" unset_env 2000 ok_handler]
  have basic: "headers_authorization (bearer_request ''Basic xyz'') = Some ''Basic xyz'' \<and>
      \<not> startsWith ''Basic xyz'' ''Bearer ''"
    by (simp add: bearer_request_def startsWith_def)
  have lower: "headers_authorization (bearer_request ''bearer tok'') = Some ''bearer tok'' \<and>
      \<not> startsWith ''bearer tok'' ''Bearer ''"
    by (simp add: bearer_request_def startsWith_def)
  have empty: "headers_authorization (bearer_request ''Bearer '') = Some ''Bearer '' \<and>
      substring ''Bearer '' 7 = []"
    by (simp add: bearer_request_def substring_def)
  have good: "headers_authorization (bearer_request ''Bearer tok'') = Some ''Bearer tok'' \<and>
      startsWith ''Bearer tok'' ''Bearer '' \<and> substring ''Bearer tok'' 7 = ''tok''"
    using substring_Bearer [of "''tok''"] by (simp add: bearer_request_def startsWith_def)
  from inst [of "bearer_request ''Basic xyz''"] basic
  have 1: "outcome (?run (bearer_request ''Basic xyz''))
     = Rejected (failure ''Access denied. No token provided.'' 401) \<and>
     verified (?run (bearer_request ''Basic xyz'')) = [] \<and>
     handled (?run (bearer_request ''Basic xyz'')) = []"
    by blast
  from inst [of "bearer_request ''bearer tok''"] lower
  have 2: "handled (?run (bearer_request ''bearer tok'')) = []" by blast
  from inst [of "bearer_request ''Bearer ''"] empty
  have 3: "handled (?run (bearer_request ''Bearer '')) = []" by blast
  from inst [of "bearer_request ''Bearer tok''"] good
  have 4: "verified (?run (bearer_request ''Bearer tok'')) = [''tok'']"
    by (metis list.distinct(1))
  from 1 2 3 4 show ?thesis by simp
qed

section \<open>Token Service\<close>

lemma verifyToken_Inr_iff:
  "verifyToken L env now token = Inr d \<longleftrightarrow>
     (\<exists>t. parse L token = Some t \<and> signature t = HMAC (JWT_SECRET env) (payload t) \<and>
          \<not> exp (payload t) < now \<and> d = payload t)"
  by (auto simp: verifyToken_def jwt_verify_def split: option.splits sum.splits if_splits)

lemma verifyToken_Inl:
  "verifyToken L env now token = Inl e \<Longrightarrow> e = Error ''Invalid token''"
  by (auto simp: verifyToken_def split: sum.splits)

lemma verifyToken_Inl_iff:
  "verifyToken L env now token = Inl (Error ''Invalid token'') \<longleftrightarrow>
     (parse L token = None \<or>
      (\<exists>t. parse L token = Some t \<and> signature t \<noteq> HMAC (JWT_SECRET env) (payload t)) \<or>
      (\<exists>t. parse L token = Some t \<and> exp (payload t) < now))"
  by (auto simp: verifyToken_def jwt_verify_def split: option.splits sum.splits if_splits)

lemma verifyToken_other_secret:
  assumes "parse L token = Some t" and "signature t = HMAC secret content"
    and "secret \<noteq> JWT_SECRET env"
  shows "verifyToken L env now token = Inl (Error ''Invalid token'')"
  using assms by (simp add: verifyToken_def jwt_verify_def)

text \<open>
  C3. \<^verbatim>\<open>verifyToken\<close> fails, and then always with the one error \<^verbatim>\<open>Invalid token\<close>, exactly when
  the string is not a token, the token's signature is not the one made with the current
  \<^verbatim>\<open>JWT_SECRET\<close> over its payload, or the current time is greater than its expiry. In
  particular a token whose signature was made with any other secret fails.
\<close>

theorem verifyToken_fails_exactly_when_invalid:
  "(verifyToken L env now token = Inl (Error ''Invalid token'') \<longleftrightarrow>
      (parse L token = None \<or>
       (\<exists>t. parse L token = Some t \<and> signature t \<noteq> HMAC (JWT_SECRET env) (payload t)) \<or>
       (\<exists>t. parse L token = Some t \<and> exp (payload t) < now))) \<and>
   (\<forall>e. verifyToken L env now token = Inl e \<longrightarrow> e = Error ''Invalid token'') \<and>
   (\<forall>t secret content.
      parse L token = Some t \<and> signature t = HMAC secret content \<and> secret \<noteq> JWT_SECRET env
      \<longrightarrow> verifyToken L env now token = Inl (Error ''Invalid token''))"
  using verifyToken_Inl_iff [of L env now token] verifyToken_Inl [of L env now token]
    verifyToken_other_secret [of L token _ _ _ env now]
  by blast

lemma JWT_SECRET_rotated: "JWT_SECRET rotated_env = ''rotated-secret''"
  by (simp add: JWT_SECRET_def or_default_def falsy_def rotated_env_def)

lemma parse_one_token: "parse (one_token_lib t) ''tok'' = Some t"
  by (simp add: one_token_lib_def)

theorem verifyToken_fails_exactly_when_invalid_witness:
  "verifyToken (one_token_lib ann_jwt) rotated_env 2000 ''tok'' = Inl (Error ''Invalid token'') \<and>
   verifyToken (one_token_lib ann_jwt) unset_env 700000 ''tok'' = Inl (Error ''Invalid token'') \<and>
   verifyToken (one_token_lib ann_jwt) unset_env 2000 ''Basic xyz'' = Inl (Error ''Invalid token'') \<and>
   verifyToken (one_token_lib ann_jwt) unset_env 2000 ''tok'' \<noteq> Inl (Error ''Invalid token'')"
proof -
  have sig: "signature ann_jwt = HMAC ''your-super-secret-jwt-key'' (stamped ann_claims 1000 604800)"
    by (simp add: ann_jwt_def signed_def)
  have pl: "payload ann_jwt = stamped ann_claims 1000 604800"
    by (simp add: ann_jwt_def signed_def)
  have ex: "exp (payload ann_jwt) = 605800"
    by (simp add: pl stamped_def)
  have other: "''your-super-secret-jwt-key'' \<noteq> JWT_SECRET rotated_env"
    by (simp add: JWT_SECRET_rotated)
  have unset: "JWT_SECRET unset_env = ''your-super-secret-jwt-key''"
    by (simp add: JWT_SECRET_def or_default_def falsy_def unset_env_def)
  have nontoken: "parse (one_token_lib ann_jwt) ''Basic xyz'' = None"
    by (simp add: one_token_lib_def)
  note inst = verifyToken_fails_exactly_when_invalid [of "one_token_lib ann_jwt"]
  have 1: "verifyToken (one_token_lib ann_jwt) rotated_env 2000 ''tok'' = Inl (Error ''Invalid token'')"
    using inst [of rotated_env 2000 "''tok''", THEN conjunct2, THEN conjunct2, rule_format,
        of ann_jwt "''your-super-secret-jwt-key''" "stamped ann_claims 1000 604800"]
      parse_one_token [of ann_jwt] sig other
    by (simp only: simp_thms)
  have 2: "verifyToken (one_token_lib ann_jwt) unset_env 700000 ''tok'' = Inl (Error ''Invalid token'')"
  proof (rule inst [of unset_env 700000 "''tok''", THEN conjunct1, THEN iffD2])
    have "parse (one_token_lib ann_jwt) ''tok'' = Some ann_jwt \<and> exp (payload ann_jwt) < 700000"
      using parse_one_token [of ann_jwt] by (simp add: ex)
    then show "parse (one_token_lib ann_jwt) ''tok'' = None \<or>
       (\<exists>t. parse (one_token_lib ann_jwt) ''tok'' = Some t \<and>
          signature t \<noteq> HMAC (JWT_SECRET unset_env) (payload t)) \<or>
       (\<exists>t. parse (one_token_lib ann_jwt) ''tok'' = Some t \<and> exp (payload t) < 700000)"
      by blast
  qed
  have 3: "verifyToken (one_token_lib ann_jwt) unset_env 2000 ''Basic xyz'' = Inl (Error ''Invalid token'')"
    by (rule inst [of unset_env 2000 "''Basic xyz''", THEN conjunct1, THEN iffD2])
       (simp only: nontoken simp_thms)
  have 4: "verifyToken (one_token_lib ann_jwt) unset_env 2000 ''tok'' \<noteq> Inl (Error ''Invalid token'')"
  proof
    assume "verifyToken (one_token_lib ann_jwt) unset_env 2000 ''tok'' = Inl (Error ''Invalid token'')"
    then have "parse (one_token_lib ann_jwt) ''tok'' = None \<or>
       (\<exists>t. parse (one_token_lib ann_jwt) ''tok'' = Some t \<and>
          signature t \<noteq> HMAC (JWT_SECRET unset_env) (payload t)) \<or>
       (\<exists>t. parse (one_token_lib ann_jwt) ''tok'' = Some t \<and> exp (payload t) < 2000)"
      by (rule inst [of unset_env 2000 "''tok''", THEN conjunct1, THEN iffD1])
    then have "signature ann_jwt \<noteq> HMAC (JWT_SECRET unset_env) (payload ann_jwt) \<or>
        exp (payload ann_jwt) < 2000"
      by (simp add: parse_one_token)
    then show False
      by (simp add: sig pl unset stamped_def)
  qed
  from 1 2 3 4 show ?thesis by (simp only: simp_thms)
qed

lemma generateToken_Inr:
  assumes "timespan L (JWT_EXPIRES_IN env) = Some T"
  shows "generateToken L env t0 c = Inr (compact L (signed c (JWT_SECRET env) t0 T))"
  using assms by (simp add: generateToken_def jwt_sign_def)

lemma verifyToken_signed:
  assumes "parse L token = Some (signed c (JWT_SECRET env) t0 T)"
  shows "verifyToken L env now token =
           (if t0 + T < now then Inl (Error ''Invalid token'') else Inr (stamped c t0 T))"
  using assms by (simp add: verifyToken_def jwt_verify_def signed_def stamped_def)

lemma JWT_EXPIRES_IN_default: "falsy (env_JWT_EXPIRES_IN env) \<Longrightarrow> JWT_EXPIRES_IN env = ''7d''"
  by (simp add: JWT_EXPIRES_IN_def or_default_def)

lemma JWT_SECRET_default:
  "falsy (env_JWT_SECRET env) \<Longrightarrow> JWT_SECRET env = ''your-super-secret-jwt-key''"
  by (simp add: JWT_SECRET_def or_default_def)

lemma falsy_None: "falsy None"
  by (simp add: falsy_def)

text \<open>
  C6. When the configured time span reads as \<open>T\<close> seconds, \<^verbatim>\<open>generateToken\<close> at time \<open>t0\<close>
  returns a token with issued-at \<open>t0\<close> and expiry \<open>t0 + T\<close>; provided the token's compact
  string parses back to it, \<^verbatim>\<open>verifyToken\<close> returns its claims at every time before \<open>t0 + T\<close>
  and fails with \<^verbatim>\<open>Invalid token\<close> at every time after \<open>t0 + T\<close>. With \<^verbatim>\<open>JWT_EXPIRES_IN\<close> unset
  the configured time span is \<^verbatim>\<open>7d\<close>, so \<open>T\<close> is 7 days when the library reads \<^verbatim>\<open>7d\<close> as
  604800 seconds.
\<close>

theorem issued_token_verifies_until_expiry:
  "(timespan L (JWT_EXPIRES_IN env) = Some T \<and>
    parse L (compact L (signed c (JWT_SECRET env) t0 T)) = Some (signed c (JWT_SECRET env) t0 T)
    \<longrightarrow> generateToken L env t0 c = Inr (compact L (signed c (JWT_SECRET env) t0 T)) \<and>
        iat (payload (signed c (JWT_SECRET env) t0 T)) = t0 \<and>
        exp (payload (signed c (JWT_SECRET env) t0 T)) = t0 + T \<and>
        (\<forall>now. now < t0 + T \<longrightarrow>
           verifyToken L env now (compact L (signed c (JWT_SECRET env) t0 T))
             = Inr (stamped c t0 T)) \<and>
        (\<forall>now. t0 + T < now \<longrightarrow>
           verifyToken L env now (compact L (signed c (JWT_SECRET env) t0 T))
             = Inl (Error ''Invalid token''))) \<and>
   (env_JWT_EXPIRES_IN env = None \<and> timespan L ''7d'' = Some (7 * 24 * 60 * 60)
    \<longrightarrow> timespan L (JWT_EXPIRES_IN env) = Some (7 * 24 * 60 * 60))"
proof (intro conjI impI allI)
  assume a: "timespan L (JWT_EXPIRES_IN env) = Some T \<and>
    parse L (compact L (signed c (JWT_SECRET env) t0 T)) = Some (signed c (JWT_SECRET env) t0 T)"
  then show "generateToken L env t0 c = Inr (compact L (signed c (JWT_SECRET env) t0 T))"
    by (simp add: generateToken_Inr)
  show "iat (payload (signed c (JWT_SECRET env) t0 T)) = t0"
    and "exp (payload (signed c (JWT_SECRET env) t0 T)) = t0 + T"
    by (simp_all add: signed_def stamped_def)
  fix now
  show "verifyToken L env now (compact L (signed c (JWT_SECRET env) t0 T)) = Inr (stamped c t0 T)"
    if "now < t0 + T"
    using a that by (simp add: verifyToken_signed)
  show "verifyToken L env now (compact L (signed c (JWT_SECRET env) t0 T))
          = Inl (Error ''Invalid token'')"
    if "t0 + T < now"
    using a that by (simp add: verifyToken_signed)
next
  assume "env_JWT_EXPIRES_IN env = None \<and> timespan L ''7d'' = Some (7 * 24 * 60 * 60)"
  then show "timespan L (JWT_EXPIRES_IN env) = Some (7 * 24 * 60 * 60)"
    using JWT_EXPIRES_IN_default [of env] falsy_None by simp
qed

lemma unset_env_config:
  "JWT_SECRET unset_env = ''your-super-secret-jwt-key'' \<and> JWT_EXPIRES_IN unset_env = ''7d'' \<and>
   env_JWT_SECRET unset_env = None \<and> env_JWT_EXPIRES_IN unset_env = None"
  by (simp add: JWT_SECRET_default JWT_EXPIRES_IN_default unset_env_def falsy_None)

lemma timespan_one_token: "timespan (one_token_lib t) ''7d'' = Some 604800"
  by (simp add: one_token_lib_def)

lemma compact_one_token: "compact (one_token_lib t) u = ''tok''"
  by (simp add: one_token_lib_def)

theorem issued_token_verifies_until_expiry_witness:
  "generateToken (one_token_lib ann_jwt) unset_env 1000 ann_claims = Inr ''tok'' \<and>
   verifyToken (one_token_lib ann_jwt) unset_env 605799 ''tok'' = Inr (stamped ann_claims 1000 604800) \<and>
   verifyToken (one_token_lib ann_jwt) unset_env 605801 ''tok'' = Inl (Error ''Invalid token'') \<and>
   timespan (one_token_lib ann_jwt) (JWT_EXPIRES_IN unset_env) = Some (7 * 24 * 60 * 60)"
proof -
  have s: "signed ann_claims (JWT_SECRET unset_env) 1000 604800 = ann_jwt"
    by (simp add: ann_jwt_def unset_env_config)
  have ts: "timespan (one_token_lib ann_jwt) (JWT_EXPIRES_IN unset_env) = Some 604800"
    by (simp add: unset_env_config timespan_one_token)
  have rt: "parse (one_token_lib ann_jwt)
      (compact (one_token_lib ann_jwt) (signed ann_claims (JWT_SECRET unset_env) 1000 604800))
      = Some (signed ann_claims (JWT_SECRET unset_env) 1000 604800)"
    by (simp only: s compact_one_token parse_one_token)
  note inst = issued_token_verifies_until_expiry
    [of "one_token_lib ann_jwt" unset_env 604800 ann_claims 1000]
  from inst [THEN conjunct1, rule_format, OF conjI [OF ts rt]]
  have 1: "generateToken (one_token_lib ann_jwt) unset_env 1000 ann_claims = Inr ''tok''"
    and 2: "verifyToken (one_token_lib ann_jwt) unset_env 605799 ''tok''
              = Inr (stamped ann_claims 1000 604800)"
    and 3: "verifyToken (one_token_lib ann_jwt) unset_env 605801 ''tok''
              = Inl (Error ''Invalid token'')"
    by (simp_all add: compact_one_token)
  have 4: "timespan (one_token_lib ann_jwt) (JWT_EXPIRES_IN unset_env) = Some (7 * 24 * 60 * 60)"
    by (rule inst [THEN conjunct2, rule_format]) (simp add: unset_env_config timespan_one_token)
  from 1 2 3 4 show ?thesis by (simp only: simp_thms)
qed

lemma jwt_verify_signed:
  assumes "parse L token = Some (signed c secret t0 T)" and "now \<le> t0 + T"
  shows "jwt_verify L now token secret = Inr (stamped c t0 T)"
  using assms by (simp add: jwt_verify_def signed_def stamped_def)

text \<open>
  C10. With \<^verbatim>\<open>JWT_SECRET\<close> unset the secret is the literal \<^verbatim>\<open>your-super-secret-jwt-key\<close>: nothing
  fails for want of a secret (signing succeeds whenever the time span is readable), both
  \<^verbatim>\<open>generateToken\<close> and \<^verbatim>\<open>verifyToken\<close> hand that literal to the library, and a token the process
  issued, once parsed back, verifies under that literal before its expiry. With
  \<^verbatim>\<open>JWT_EXPIRES_IN\<close> unset the time span handed to the library is \<^verbatim>\<open>7d\<close>.
\<close>

theorem unset_secret_is_public_default:
  "(env_JWT_SECRET env = None
    \<longrightarrow> JWT_SECRET env = ''your-super-secret-jwt-key'' \<and>
        generateToken L env t0 c
          = jwt_sign L t0 c ''your-super-secret-jwt-key'' (JWT_EXPIRES_IN env) \<and>
        (timespan L (JWT_EXPIRES_IN env) \<noteq> None \<longrightarrow> (\<exists>tok. generateToken L env t0 c = Inr tok)) \<and>
        verifyToken L env now token
          = (case jwt_verify L now token ''your-super-secret-jwt-key'' of
               Inl _ \<Rightarrow> Inl (Error ''Invalid token'')
             | Inr decoded \<Rightarrow> Inr decoded) \<and>
        (\<forall>tok ttl. generateToken L env t0 c = Inr tok \<and>
             timespan L (JWT_EXPIRES_IN env) = Some ttl \<and>
             parse L tok = Some (signed c ''your-super-secret-jwt-key'' t0 ttl) \<and>
             now < t0 + ttl
           \<longrightarrow> jwt_verify L now tok ''your-super-secret-jwt-key'' = Inr (stamped c t0 ttl) \<and>
               verifyToken L env now tok = Inr (stamped c t0 ttl))) \<and>
   (env_JWT_EXPIRES_IN env = None
    \<longrightarrow> JWT_EXPIRES_IN env = ''7d'' \<and>
        generateToken L env t0 c = jwt_sign L t0 c (JWT_SECRET env) ''7d'')"
proof (intro conjI impI allI)
  assume "env_JWT_EXPIRES_IN env = None"
  then show "JWT_EXPIRES_IN env = ''7d''"
    and "generateToken L env t0 c = jwt_sign L t0 c (JWT_SECRET env) ''7d''"
    by (simp_all add: JWT_EXPIRES_IN_default falsy_None generateToken_def)
next
  assume unset: "env_JWT_SECRET env = None"
  then show secret: "JWT_SECRET env = ''your-super-secret-jwt-key''"
    by (simp add: JWT_SECRET_default falsy_None)
  then show "generateToken L env t0 c
      = jwt_sign L t0 c ''your-super-secret-jwt-key'' (JWT_EXPIRES_IN env)"
    by (simp only: generateToken_def)
  from secret show "verifyToken L env now token
      = (case jwt_verify L now token ''your-super-secret-jwt-key'' of
           Inl _ \<Rightarrow> Inl (Error ''Invalid token'')
         | Inr decoded \<Rightarrow> Inr decoded)"
    by (simp only: verifyToken_def)
  show "\<exists>tok. generateToken L env t0 c = Inr tok" if "timespan L (JWT_EXPIRES_IN env) \<noteq> None"
    using that generateToken_Inr [of L env _ t0 c] by blast
  fix tok ttl
  assume a: "generateToken L env t0 c = Inr tok \<and>
             timespan L (JWT_EXPIRES_IN env) = Some ttl \<and>
             parse L tok = Some (signed c ''your-super-secret-jwt-key'' t0 ttl) \<and>
             now < t0 + ttl"
  then show "jwt_verify L now tok ''your-super-secret-jwt-key'' = Inr (stamped c t0 ttl)"
    by (simp add: jwt_verify_signed)
  with secret show "verifyToken L env now tok = Inr (stamped c t0 ttl)"
    by (simp add: verifyToken_def)
qed

theorem unset_secret_is_public_default_witness:
  "JWT_SECRET unset_env = ''your-super-secret-jwt-key'' \<and>
   JWT_EXPIRES_IN unset_env = ''7d'' \<and>
   generateToken (one_token_lib ann_jwt) unset_env 1000 ann_claims = Inr ''tok'' \<and>
   jwt_verify (one_token_lib ann_jwt) 2000 ''tok'' ''your-super-secret-jwt-key''
     = Inr (stamped ann_claims 1000 604800)"
proof -
  note inst = unset_secret_is_public_default
    [of unset_env "one_token_lib ann_jwt" 1000 ann_claims 2000 "''tok''"]
  have unset: "env_JWT_SECRET unset_env = None" "env_JWT_EXPIRES_IN unset_env = None"
    by (simp_all add: unset_env_def)
  have 1: "JWT_SECRET unset_env = ''your-super-secret-jwt-key''"
    using inst [THEN conjunct1, rule_format, OF unset(1)] by (simp only:)
  have 2: "JWT_EXPIRES_IN unset_env = ''7d''"
    using inst [THEN conjunct2, rule_format, OF unset(2)] by (simp only:)
  have gen: "generateToken (one_token_lib ann_jwt) unset_env 1000 ann_claims
      = jwt_sign (one_token_lib ann_jwt) 1000 ann_claims ''your-super-secret-jwt-key'' ''7d''"
    using inst [THEN conjunct1, rule_format, OF unset(1)] 2 by (simp only:)
  then have 3: "generateToken (one_token_lib ann_jwt) unset_env 1000 ann_claims = Inr ''tok''"
    by (simp add: jwt_sign_def timespan_one_token compact_one_token)
  have ts: "timespan (one_token_lib ann_jwt) (JWT_EXPIRES_IN unset_env) = Some 604800"
    by (simp add: 2 timespan_one_token)
  have ps: "parse (one_token_lib ann_jwt) ''tok''
      = Some (signed ann_claims ''your-super-secret-jwt-key'' 1000 604800)"
    by (simp add: parse_one_token ann_jwt_def)
  have le: "(2000::nat) < 1000 + 604800" by simp
  have 4: "jwt_verify (one_token_lib ann_jwt) 2000 ''tok'' ''your-super-secret-jwt-key''
     = Inr (stamped ann_claims 1000 604800)"
    using inst [THEN conjunct1, rule_format, OF unset(1), THEN conjunct2, THEN conjunct2,
        THEN conjunct2, THEN conjunct2, rule_format, of "''tok''" 604800] 3 ts ps le
    by (simp only: simp_thms)
  from 1 2 3 4 show ?thesis by (simp only: simp_thms)
qed

section \<open>Login\<close>

lemma login_unknown_email:
  assumes "dbConnect U = None"
    and "\<not> js_falsy (login_email b)" and "\<not> js_falsy (login_password b)"
    and "findOne U (the (login_email b)) = Inr None"
  shows "login_POST U L env now (Inr b) =
           (failure ''Invalid email or password'' 401,
            [DbConnect, ReadBody, FindOne (the (login_email b))])"
  using assms by (simp add: login_POST_def)

lemma login_wrong_password:
  assumes "dbConnect U = None"
    and "\<not> js_falsy (login_email b)" and "\<not> js_falsy (login_password b)"
    and "findOne U (the (login_email b)) = Inr (Some u)"
    and "comparePassword U u (the (login_password b)) = Inr False"
  shows "login_POST U L env now (Inr b) =
           (failure ''Invalid email or password'' 401,
            [DbConnect, ReadBody, FindOne (the (login_email b)),
             ComparePassword u (the (login_password b))])"
  using assms by (simp add: login_POST_def)

lemma failure_fields:
  "status (failure msg code) = code \<and>
   body (failure msg code) = [(''success'', JBool False), (''message'', JStr msg)]"
  by (simp add: failure_def json_response_def)

text \<open>
  C2. A login whose email is not in the store and a login whose email is in the store but
  whose password does not verify get the same response: status 401 and the body
  \<^verbatim>\<open>{ success: false, message: 'Invalid email or password' }\<close>.
\<close>

theorem login_failures_indistinguishable:
  "dbConnect U = None \<and> dbConnect U' = None \<and>
   \<not> js_falsy (login_email b) \<and> \<not> js_falsy (login_password b) \<and>
   \<not> js_falsy (login_email b') \<and> \<not> js_falsy (login_password b') \<and>
   findOne U (the (login_email b)) = Inr None \<and>
   findOne U' (the (login_email b')) = Inr (Some u) \<and>
   comparePassword U' u (the (login_password b')) = Inr False
   \<longrightarrow> fst (login_POST U L env now (Inr b)) = fst (login_POST U' L' env' now' (Inr b')) \<and>
       status (fst (login_POST U L env now (Inr b))) = 401 \<and>
       body (fst (login_POST U L env now (Inr b)))
         = [(''success'', JBool False), (''message'', JStr ''Invalid email or password'')]"
proof
  assume a: "dbConnect U = None \<and> dbConnect U' = None \<and>
   \<not> js_falsy (login_email b) \<and> \<not> js_falsy (login_password b) \<and>
   \<not> js_falsy (login_email b') \<and> \<not> js_falsy (login_password b') \<and>
   findOne U (the (login_email b)) = Inr None \<and>
   findOne U' (the (login_email b')) = Inr (Some u) \<and>
   comparePassword U' u (the (login_password b')) = Inr False"
  then have "fst (login_POST U L env now (Inr b)) = failure ''Invalid email or password'' 401"
    by (simp add: login_unknown_email)
  moreover from a
  have "fst (login_POST U' L' env' now' (Inr b')) = failure ''Invalid email or password'' 401"
    by (simp add: login_wrong_password)
  ultimately show "fst (login_POST U L env now (Inr b)) = fst (login_POST U' L' env' now' (Inr b')) \<and>
       status (fst (login_POST U L env now (Inr b))) = 401 \<and>
       body (fst (login_POST U L env now (Inr b)))
         = [(''success'', JBool False), (''message'', JStr ''Invalid email or password'')]"
    by (simp add: failure_fields)
qed

lemma ann_store_simps:
  "dbConnect ann_store = None"
  "findOne ann_store e = Inr (if e = JStr ''ann@x.com'' then Some ann_doc else None)"
  "save ann_store n e p = new_doc n e"
  "comparePassword ann_store u p = Inr (p = JStr ''secret1'')"
  "findById ann_store i = Inr (if i = ''u1'' then Some ann_doc else None)"
  by (simp_all add: ann_store_def)

theorem login_failures_indistinguishable_witness:
  "fst (login_POST ann_store (one_token_lib ann_jwt) unset_env 2000 (login_request ''bob@x.com'' ''secret1''))
     = fst (login_POST ann_store (one_token_lib ann_jwt) unset_env 2000 (login_request ''ann@x.com'' ''wrong-password'')) \<and>
   status (fst (login_POST ann_store (one_token_lib ann_jwt) unset_env 2000 (login_request ''bob@x.com'' ''secret1''))) = 401"
proof -
  have "dbConnect ann_store = None \<and> dbConnect ann_store = None \<and>
     \<not> js_falsy (login_email \<lparr>login_email = Some (JStr ''bob@x.com''), login_password = Some (JStr ''secret1'')\<rparr>) \<and>
     \<not> js_falsy (login_password \<lparr>login_email = Some (JStr ''bob@x.com''), login_password = Some (JStr ''secret1'')\<rparr>) \<and>
     \<not> js_falsy (login_email \<lparr>login_email = Some (JStr ''ann@x.com''), login_password = Some (JStr ''wrong-password'')\<rparr>) \<and>
     \<not> js_falsy (login_password \<lparr>login_email = Some (JStr ''ann@x.com''), login_password = Some (JStr ''wrong-password'')\<rparr>) \<and>
     findOne ann_store (the (login_email \<lparr>login_email = Some (JStr ''bob@x.com''), login_password = Some (JStr ''secret1'')\<rparr>)) = Inr None \<and>
     findOne ann_store (the (login_email \<lparr>login_email = Some (JStr ''ann@x.com''), login_password = Some (JStr ''wrong-password'')\<rparr>)) = Inr (Some ann_doc) \<and>
     comparePassword ann_store ann_doc (the (login_password \<lparr>login_email = Some (JStr ''ann@x.com''), login_password = Some (JStr ''wrong-password'')\<rparr>)) = Inr False"
    by (simp add: ann_store_simps)
  from login_failures_indistinguishable [rule_format, OF this,
      of "one_token_lib ann_jwt" unset_env 2000 "one_token_lib ann_jwt" unset_env 2000]
  show ?thesis unfolding login_request_def by blast
qed

section \<open>Signup\<close>



lemma password_too_short_array:
  "password_too_short to_number (JArr xs) = Inr (length xs < 6)"
  by (simp add: password_too_short_def less_than_def)

lemma password_too_short_object:
  "password_too_short to_number (JObj []) = Inr False"
  "password_too_short to_number (JObj [(''length'', JNum 3)]) = Inr True"
  "password_too_short to_number (JObj [(''length'', JNum 3), (''length'', JNum 9)]) = Inr False"
  "password_too_short to_number (JObj [(''length'', JNull)]) = Inr True"
  "password_too_short to_number (JObj [(''length'', JBool True)]) = Inr True"
  "password_too_short to_number (JObj [(''length'', JStr s)])
     = (case to_number (JStr s) of
          Inl error \<Rightarrow> Inl error
        | Inr None \<Rightarrow> Inr False
        | Inr (Some x) \<Rightarrow> Inr (x < 6))"
  by (simp_all add: password_too_short_def less_than_def)











lemma userData_keys:
  "map fst (userData u) =
     [''id'', ''name'', ''email'', ''role'', ''avatar'', ''isVerified'', ''createdAt'']"
  by (simp add: userData_def)

lemma userData_no_password: "''password'' \<notin> fst ` set (userData u)"
  by (simp add: userData_def)








section \<open>Me\<close>






section \<open>The user object of a response\<close>

lemma signup_success_user:
  assumes "map_of (body (fst (signup_POST U L env now to_number request_json))) ''success''
             = Some (JBool True)"
  shows "\<exists>u. map_of (body (fst (signup_POST U L env now to_number request_json))) ''user''
           = Some (JObj (userData u))"
  using assms
  by (auto simp: signup_POST_def signup_catch_def failure_def json_response_def Let_def
      split: option.splits sum.splits if_splits)

lemma login_success_user:
  assumes "map_of (body (fst (login_POST U L env now request_json))) ''success'' = Some (JBool True)"
  shows "\<exists>u. map_of (body (fst (login_POST U L env now request_json))) ''user''
           = Some (JObj (userData u))"
  using assms
  by (auto simp: login_POST_def login_catch_def failure_def json_response_def Let_def
      split: option.splits sum.splits if_splits)

lemma me_success_user:
  assumes "map_of (body (fst (me_GET U L env now authHeader))) ''success'' = Some (JBool True)"
  shows "\<exists>u. map_of (body (fst (me_GET U L env now authHeader))) ''user''
           = Some (JObj (userData u))"
  using assms
  by (auto simp: me_GET_def me_catch_def failure_def json_response_def Let_def
      split: option.splits sum.splits if_splits)

lemma userData_ignores_password: "userData (u\<lparr>doc_password := h\<rparr>) = userData u"
  by (simp add: userData_def)

text \<open>
  C8. Whenever Signup, Login or Me answers with \<^verbatim>\<open>success: true\<close>, the \<^verbatim>\<open>user\<close> field of the body
  is the \<^verbatim>\<open>userData\<close> object of some document. That object has exactly the fields id, name,
  email, role, avatar, isVerified and createdAt, none of them \<^verbatim>\<open>password\<close>, and does not depend
  on the document's password hash.
\<close>

theorem success_responses_omit_password:
  "(\<forall>resp \<in> {fst (signup_POST U L env now to_number signup_json),
              fst (login_POST U L env now login_json),
              fst (me_GET U L env now authHeader)}.
      map_of (body resp) ''success'' = Some (JBool True) \<longrightarrow>
      (\<exists>u. map_of (body resp) ''user'' = Some (JObj (userData u)))) \<and>
   (\<forall>u. map fst (userData u)
          = [''id'', ''name'', ''email'', ''role'', ''avatar'', ''isVerified'', ''createdAt''] \<and>
        ''password'' \<notin> fst ` set (userData u) \<and>
        (\<forall>h. userData (u\<lparr>doc_password := h\<rparr>) = userData u))"
  using signup_success_user [of U L env now to_number signup_json]
    login_success_user [of U L env now login_json]
    me_success_user [of U L env now authHeader]
    userData_keys userData_no_password userData_ignores_password
  by blast

lemma login_ann_succeeds:
  "login_POST ann_store (one_token_lib ann_jwt) unset_env 2000 (login_request ''ann@x.com'' ''secret1'')
     = (json_response
          [(''success'', JBool True),
           (''message'', JStr ''Login successful''),
           (''user'', JObj (userData ann_doc)),
           (''token'', JStr ''tok'')] 200,
        [DbConnect, ReadBody, FindOne (JStr ''ann@x.com''),
         ComparePassword ann_doc (JStr ''secret1''),
         GenerateToken (token_claims ann_doc)])"
  by (simp add: login_POST_def login_request_def ann_store_simps generateToken_def
      jwt_sign_def unset_env_config timespan_one_token compact_one_token)

theorem success_responses_omit_password_witness:
  "(\<exists>u. map_of (body (fst (login_POST ann_store (one_token_lib ann_jwt) unset_env 2000
            (login_request ''ann@x.com'' ''secret1'')))) ''user'' = Some (JObj (userData u))) \<and>
   map_of (userData ann_doc) ''password'' = None \<and>
   map_of (body (fst (login_POST ann_store (one_token_lib ann_jwt) unset_env 2000
            (login_request ''ann@x.com'' ''secret1'')))) ''success'' = Some (JBool True)"
proof -
  let ?resp = "fst (login_POST ann_store (one_token_lib ann_jwt) unset_env 2000
            (login_request ''ann@x.com'' ''secret1''))"
  have ok: "map_of (body ?resp) ''success'' = Some (JBool True)"
    by (simp add: login_ann_succeeds json_response_def)
  note inst = success_responses_omit_password [of ann_store "one_token_lib ann_jwt" unset_env 2000
      _ _ "login_request ''ann@x.com'' ''secret1''"]
  from inst ok have 1: "\<exists>u. map_of (body ?resp) ''user'' = Some (JObj (userData u))"
    by blast
  from inst have "''password'' \<notin> fst ` set (userData ann_doc)"
    by blast
  then have 2: "map_of (userData ann_doc) ''password'' = None"
    by (simp add: map_of_eq_None_iff)
  from 1 2 ok show ?thesis by blast
qed

section \<open>Password Hasher: hash then verify\<close>

lemma verify_Salted: "verify plaintext (Salted salt (Digest salt' p)) = Inr (salt' = salt \<and> p = plaintext)"
  by (simp add: verify_def)

lemma hash_Some: "hash (Some salt) plaintext = Inr (Salted salt (Digest salt plaintext))"
  by (simp add: hash_def)

text \<open>
  C9. For every plaintext and every salt drawn, \<open>verify\<close> of the plaintext against its
  \<open>hash\<close> returns true, and \<open>verify\<close> of any other plaintext against that hash returns false
  (a value, not a failure).
\<close>

theorem verify_accepts_exactly_the_hashed_plaintext:
  "hash (Some salt) plaintext = Inr h
   \<longrightarrow> verify plaintext h = Inr True \<and>
       (\<forall>other. other \<noteq> plaintext \<longrightarrow> verify other h = Inr False)"
  by (auto simp: hash_Some verify_Salted)

theorem verify_accepts_exactly_the_hashed_plaintext_witness:
  "hash (Some ''c2FsdA'') ''secret1'' = Inr (Salted ''c2FsdA'' (Digest ''c2FsdA'' ''secret1'')) \<and>
   verify ''secret1'' (Salted ''c2FsdA'' (Digest ''c2FsdA'' ''secret1'')) = Inr True \<and>
   verify ''secret2'' (Salted ''c2FsdA'' (Digest ''c2FsdA'' ''secret1'')) = Inr False"
proof -
  have h: "hash (Some ''c2FsdA'') ''secret1'' = Inr (Salted ''c2FsdA'' (Digest ''c2FsdA'' ''secret1''))"
    by (rule hash_Some)
  have ne: "''secret2'' \<noteq> ''secret1''" by simp
  note inst = verify_accepts_exactly_the_hashed_plaintext [rule_format, OF h]
  have 1: "verify ''secret1'' (Salted ''c2FsdA'' (Digest ''c2FsdA'' ''secret1'')) = Inr True"
    by (rule inst [THEN conjunct1])
  have 2: "verify ''secret2'' (Salted ''c2FsdA'' (Digest ''c2FsdA'' ''secret1'')) = Inr False"
    by (rule inst [THEN conjunct2, rule_format, OF ne])
  show ?thesis by (intro conjI h 1 2)
qed

end
